theory Spec2Isabelle
  imports Main "HOL-Library.Sublist"
begin

section \<open>Python strings\<close>

text \<open>
  A Python \<open>str\<close> is a sequence of Unicode code points and \<open>len\<close> counts code points.
  A character is therefore modelled by its code point, so that the horizontal ellipsis
  (U+2026) is one character, as it is for \<open>len\<close> in the scripts.  ASCII literals of the
  source are written with \<open>str_of\<close>.
\<close>

type_synonym pychar = nat
type_synonym pystr = "pychar list"

definition str_of :: "string \<Rightarrow> pystr" where
  "str_of s = map of_char s"

definition NL :: pychar where
  "NL = 10"

definition SPACE :: pychar where
  "SPACE = 32"

definition ELLIPSIS :: pychar where
  "ELLIPSIS = 8230"

text \<open>
  \<open>str.isspace\<close> for one character, the set that \<open>str.strip()\<close> without arguments removes:
  U+0009..U+000D, U+001C..U+0020, U+0085, U+00A0, U+1680, U+2000..U+200A, U+2028, U+2029,
  U+202F, U+205F, U+3000.
\<close>

definition is_space :: "pychar \<Rightarrow> bool" where
  "is_space c \<longleftrightarrow>
     (9 \<le> c \<and> c \<le> 13) \<or> (28 \<le> c \<and> c \<le> 32) \<or> c = 133 \<or> c = 160 \<or> c = 5760 \<or>
     (8192 \<le> c \<and> c \<le> 8202) \<or> c = 8232 \<or> c = 8233 \<or> c = 8239 \<or> c = 8287 \<or> c = 12288"

definition str_rstrip :: "pystr \<Rightarrow> pystr" where
  "str_rstrip s = rev (dropWhile is_space (rev s))"

definition str_strip :: "pystr \<Rightarrow> pystr" where
  "str_strip s = str_rstrip (dropWhile is_space s)"

text \<open>
  \<open>str.lower()\<close>, restricted to what the comparisons with the ASCII literals \<open>"true"\<close>
  and \<open>"y"\<close> in \<open>main\<close> can observe: the letters A..Z are mapped to a..z and every other
  character is kept.  (No character outside ASCII has a lower-case form among t, r, u, e, y.)
\<close>

definition chr_lower :: "pychar \<Rightarrow> pychar" where
  "chr_lower c = (if 65 \<le> c \<and> c \<le> 90 then c + 32 else c)"

definition str_lower :: "pystr \<Rightarrow> pystr" where
  "str_lower s = map chr_lower s"

text \<open>
  \<open>s.replace(old, new)\<close>: the occurrences of \<open>old\<close> are replaced from left to right without
  overlap; scanning resumes behind a replaced occurrence.  For the empty pattern Python puts
  \<open>new\<close> before every character and at the end.  The test \<open>old in s\<close> is \<^const>\<open>sublist\<close>.
\<close>

fun replace_scan :: "pystr \<Rightarrow> pystr \<Rightarrow> pystr \<Rightarrow> pystr" where
  "replace_scan old new [] = []"
| "replace_scan old new (c # cs) =
     (if old \<noteq> [] \<and> prefix old (c # cs)
      then new @ replace_scan old new (drop (length old) (c # cs))
      else c # replace_scan old new cs)"

definition str_replace :: "pystr \<Rightarrow> pystr \<Rightarrow> pystr \<Rightarrow> pystr" where
  "str_replace old new s =
     (if old = [] then new @ concat (map (\<lambda>c. c # new) s) else replace_scan old new s)"

section \<open>The post shaper\<close>

definition MAX_TWEET_LENGTH :: nat where
  "MAX_TWEET_LENGTH = 280"

definition MAX_LINKEDIN_LENGTH :: nat where
  "MAX_LINKEDIN_LENGTH = 3000"

definition NL3 :: pystr where
  "NL3 = [NL, NL, NL]"

definition NL2 :: pystr where
  "NL2 = [NL, NL]"

text \<open>
  The loop of \<open>paraphrase_for_tweet\<close> (both scripts):
  \<^verbatim>\<open>while "\n\n\n" in tweet: tweet = tweet.replace("\n\n\n", "\n\n")\<close>
  translated as it stands, with no assumption that it ends: \<open>None\<close> is a loop that runs for
  ever.
\<close>

partial_function (option) collapse_loop :: "pystr \<Rightarrow> pystr option" where
  "collapse_loop tweet =
     (if sublist NL3 tweet then collapse_loop (str_replace NL3 NL2 tweet) else Some tweet)"

text \<open>
  One pass of the loop body makes the string strictly shorter whenever the loop condition
  holds; this is the measure under which the loop is a total function.
\<close>

lemma replace_scan_length_le:
  "length new \<le> length old \<Longrightarrow> length (replace_scan old new s) \<le> length s"
proof (induction old new s rule: replace_scan.induct)
  case (1 old new)
  show ?case by simp
next
  case (2 old new c cs)
  show ?case
  proof (cases "old \<noteq> [] \<and> prefix old (c # cs)")
    case True
    then have "length old \<le> length (c # cs)" by (auto dest: prefix_length_le)
    with True 2 show ?thesis by simp
  next
    case False
    with 2 show ?thesis by auto
  qed
qed

lemma replace_scan_length_less:
  "length new < length old \<Longrightarrow> sublist old s \<Longrightarrow> length (replace_scan old new s) < length s"
proof (induction old new s rule: replace_scan.induct)
  case (1 old new)
  then show ?case by simp
next
  case (2 old new c cs)
  from 2(3) have ne: "old \<noteq> []" by auto
  show ?case
  proof (cases "prefix old (c # cs)")
    case True
    then have le: "length old \<le> length (c # cs)" by (auto dest: prefix_length_le)
    have "length (replace_scan old new (drop (length old) (c # cs)))
            \<le> length (drop (length old) (c # cs))"
      using 2(3) by (intro replace_scan_length_le) simp
    with True ne le 2(3) show ?thesis by simp
  next
    case False
    with 2(4) have "sublist old cs" by (simp add: sublist_Cons_right)
    with False 2 show ?thesis by simp
  qed
qed

lemma NL3_step_decreases:
  "sublist NL3 s \<Longrightarrow> length (str_replace NL3 NL2 s) < length s"
  by (simp add: str_replace_def NL3_def NL2_def replace_scan_length_less)

text \<open>The same loop as a total function, used by the rest of the pipeline.\<close>

function normalize_blank_lines :: "pystr \<Rightarrow> pystr" where
  "normalize_blank_lines tweet =
     (if sublist NL3 tweet then normalize_blank_lines (str_replace NL3 NL2 tweet) else tweet)"
  by pat_completeness auto
termination
  by (relation "measure length") (simp_all add: NL3_step_decreases)

declare normalize_blank_lines.simps [simp del]

text \<open>
  Lines 66 to 71 of \<open>paraphrase_for_tweet\<close>, applied to the stripped response text: the
  blank-line loop, then the length check with the cut at \<open>MAX_TWEET_LENGTH - 1\<close>.
\<close>

definition shape_tweet :: "pystr \<Rightarrow> pystr" where
  "shape_tweet text =
     (let tweet = normalize_blank_lines text
      in if length tweet > MAX_TWEET_LENGTH
         then take (MAX_TWEET_LENGTH - 1) tweet @ [ELLIPSIS]
         else tweet)"

text \<open>Lines 111 to 114 of \<open>paraphrase_for_linkedin\<close>: no blank-line loop.\<close>

definition shape_linkedin :: "pystr \<Rightarrow> pystr" where
  "shape_linkedin post =
     (if length post > MAX_LINKEDIN_LENGTH
      then take (MAX_LINKEDIN_LENGTH - 1) post @ [ELLIPSIS]
      else post)"

definition truncate_tweet :: "pystr \<Rightarrow> pystr" where
  "truncate_tweet text =
     (if text = [] then []
      else if length text \<le> MAX_TWEET_LENGTH then text
      else take (MAX_TWEET_LENGTH - 1) text @ [ELLIPSIS])"

text \<open>
  Lines 41 to 47 of \<open>paraphrase_text\<close> in \<open>tweet.py\<close>, applied to the stripped response
  text: every newline becomes a space, and a long result is cut at 277 characters and
  closed with three full stops.
\<close>

definition shape_text :: "pystr \<Rightarrow> pystr" where
  "shape_text text =
     (let tweet = str_replace [NL] [SPACE] text
      in if length tweet > 280 then take 277 tweet @ str_of ''...'' else tweet)"

text \<open>
  The spec's wording of the first shaping step, written independently of the loop: every
  maximal run of newline characters that has three or more members is replaced by exactly
  two newlines, and everything else is kept.
\<close>

function collapse_runs :: "pystr \<Rightarrow> pystr" where
  "collapse_runs [] = []"
| "collapse_runs (c # cs) =
     (if c = NL
      then (let k = length (takeWhile (\<lambda>x. x = NL) (c # cs))
            in (if 3 \<le> k then [NL, NL] else replicate k NL)
               @ collapse_runs (dropWhile (\<lambda>x. x = NL) (c # cs)))
      else c # collapse_runs cs)"
  by pat_completeness auto
termination
  by (relation "measure length") (auto intro: le_imp_less_Suc length_dropWhile_le)

section \<open>The environment of the scripts\<close>

text \<open>
  Everything the scripts take from outside is a field of \<open>world\<close>: the process environment,
  the input file, the generation service, the posting service, the file system's answer to
  an append, the parsed command line, the terminal and the clock.  What a script does to
  the outside is recorded as a list of events, in the order of the calls.  Logging is not
  modelled: no return value depends on it.
\<close>

text \<open>
  The exceptions that can leave a function of the scripts.  What \<open>create_tweet\<close> raises is
  caught inside \<open>main\<close> and is part of \<open>post_result\<close> below.
\<close>

datatype exn =
    EnvironmentError string
  | RuntimeError
  | FileNotFoundError
  | OtherException

text \<open>
  The f-string prompts are kept symbolic: the template that is used, with the raw text
  that is spliced into it.
\<close>

datatype prompt = TweetPrompt pystr | LinkedInPrompt pystr

text \<open>
  \<open>client.models.generate_content\<close> either raises or gives a response whose \<open>text\<close> is a
  string.
\<close>

datatype gen_result = GenRaises | GenText pystr

datatype file_result = FileMissing | FileUnreadable | FileContents pystr

text \<open>
  \<open>client.create_tweet\<close> raises a \<open>TweepyException\<close>, raises something else, or returns;
  the argument of \<open>PostOk\<close> is the value of
  \<^verbatim>\<open>response.data.get("id") if response and response.data else None\<close>,
  an identifier string or \<open>None\<close>.
\<close>

datatype post_result = PostApiError | PostUnexpectedError | PostOk "pystr option"

datatype event =
    GenerateContent pystr prompt
  | CreateTweet pystr
  | FileAppend pystr "pystr list"
  | Print pystr
  | Input pystr

record world =
  getenv :: "string \<Rightarrow> pystr option"
  read_file :: "string \<Rightarrow> file_result"
  generate_content :: "pystr \<Rightarrow> prompt \<Rightarrow> gen_result"
  client_init_fails :: bool
  create_tweet :: "pystr \<Rightarrow> post_result"
  can_append :: "pystr \<Rightarrow> bool"
  arg_yes :: bool
  arg_output :: pystr
  stdin_line :: "pystr option"
  utcnow_iso :: pystr

text \<open>The posting calls of a trace, in order, with the text each one was given.\<close>

fun posting_calls :: "event list \<Rightarrow> pystr list" where
  "posting_calls [] = []"
| "posting_calls (CreateTweet t # es) = t # posting_calls es"
| "posting_calls (e # es) = posting_calls es"

fun generation_calls :: "event list \<Rightarrow> prompt list" where
  "generation_calls [] = []"
| "generation_calls (GenerateContent k p # es) = p # generation_calls es"
| "generation_calls (e # es) = generation_calls es"

fun appended :: "event list \<Rightarrow> (pystr \<times> pystr list) list" where
  "appended [] = []"
| "appended (FileAppend p c # es) = (p, c) # appended es"
| "appended (e # es) = appended es"

section \<open>Functions shared by \<open>script.py\<close> and \<open>Tweet/X Automation/script.py\<close>\<close>

text \<open>\<open>_get_env_var\<close>: a variable that is unset or empty raises \<open>EnvironmentError\<close>.\<close>

definition get_env_var :: "world \<Rightarrow> string \<Rightarrow> exn + pystr" where
  "get_env_var w name =
     (case getenv w name of
        None \<Rightarrow> Inl (EnvironmentError name)
      | Some val \<Rightarrow> if val = [] then Inl (EnvironmentError name) else Inr val)"

text \<open>
  \<open>paraphrase_for_tweet\<close>.  The two scripts differ in the wording of the prompt and in the
  docstring only.  The key is read before the \<open>try\<close>; only the call of the service is
  inside it.
\<close>

definition paraphrase_for_tweet :: "world \<Rightarrow> pystr \<Rightarrow> (exn + pystr) \<times> event list" where
  "paraphrase_for_tweet w text =
     (if text = [] then (Inr [], [])
      else case get_env_var w ''GEMINI_API_KEY'' of
        Inl e \<Rightarrow> (Inl e, [])
      | Inr api_key \<Rightarrow>
          (case generate_content w api_key (TweetPrompt text) of
             GenRaises \<Rightarrow> (Inr [], [GenerateContent api_key (TweetPrompt text)])
           | GenText t \<Rightarrow>
               (Inr (shape_tweet (str_strip t)),
                [GenerateContent api_key (TweetPrompt text)])))"

definition paraphrase_for_linkedin :: "world \<Rightarrow> pystr \<Rightarrow> (exn + pystr) \<times> event list" where
  "paraphrase_for_linkedin w text =
     (if text = [] then (Inr [], [])
      else case get_env_var w ''GEMINI_API_KEY'' of
        Inl e \<Rightarrow> (Inl e, [])
      | Inr api_key \<Rightarrow>
          (case generate_content w api_key (LinkedInPrompt text) of
             GenRaises \<Rightarrow> (Inr [], [GenerateContent api_key (LinkedInPrompt text)])
           | GenText t \<Rightarrow>
               (Inr (shape_linkedin (str_strip t)),
                [GenerateContent api_key (LinkedInPrompt text)])))"

definition read_text_from_file :: "world \<Rightarrow> string \<Rightarrow> exn + pystr" where
  "read_text_from_file w file_path =
     (case read_file w file_path of
        FileMissing \<Rightarrow> Inl FileNotFoundError
      | FileUnreadable \<Rightarrow> Inl OtherException
      | FileContents s \<Rightarrow> Inr (str_strip s))"

text \<open>\<open>dry_run = os.getenv("DRY_RUN", "false").lower() == "true"\<close>\<close>

definition dry_run :: "world \<Rightarrow> bool" where
  "dry_run w \<longleftrightarrow>
     str_lower (case getenv w ''DRY_RUN'' of None \<Rightarrow> str_of ''false'' | Some v \<Rightarrow> v)
       = str_of ''true''"

text \<open>
  The construction of \<open>tweepy.Client\<close>: the four credentials are read in the order of the
  keyword arguments, then the constructor runs.
\<close>

definition init_client :: "world \<Rightarrow> exn + unit" where
  "init_client w =
     (case get_env_var w ''X_API_KEY'' of Inl e \<Rightarrow> Inl e | Inr _ \<Rightarrow>
      case get_env_var w ''X_API_SECRET'' of Inl e \<Rightarrow> Inl e | Inr _ \<Rightarrow>
      case get_env_var w ''X_ACCESS_TOKEN'' of Inl e \<Rightarrow> Inl e | Inr _ \<Rightarrow>
      case get_env_var w ''X_ACCESS_SECRET'' of Inl e \<Rightarrow> Inl e | Inr _ \<Rightarrow>
      if client_init_fails w then Inl OtherException else Inr ())"

section \<open>\<open>script.py\<close>: the single-platform script\<close>

definition generate_learning_update :: "world \<Rightarrow> (exn + pystr) \<times> event list" where
  "generate_learning_update w =
     (case read_text_from_file w ''text.txt'' of
        Inl e \<Rightarrow> (Inr [], [])
      | Inr raw_text \<Rightarrow>
          if raw_text = [] then (Inr [], []) else paraphrase_for_tweet w raw_text)"

text \<open>
  \<open>main\<close>: \<open>Inr n\<close> is the value returned to \<open>sys.exit\<close>, \<open>Inl e\<close> an exception that leaves
  \<open>main\<close> uncaught.
\<close>

definition main :: "world \<Rightarrow> (exn + nat) \<times> event list" where
  "main w =
     (case init_client w of
        Inl (EnvironmentError name) \<Rightarrow> (Inr 2, [])
      | Inl _ \<Rightarrow> (Inr 3, [])
      | Inr _ \<Rightarrow>
         (case generate_learning_update w of
            (Inl e, tr) \<Rightarrow> (Inl e, tr)
          | (Inr generated, tr) \<Rightarrow>
             (let tweet = truncate_tweet generated in
              if tweet = [] then (Inr 4, tr)
              else if dry_run w then
                (Inr 0, tr @ [Print (NL # str_of ''--- TWEET PREVIEW ---'' @ [NL]),
                              Print tweet,
                              Print (NL # str_of ''--------------------'' @ [NL])])
              else
                (case create_tweet w tweet of
                   PostApiError \<Rightarrow> (Inr 5, tr @ [CreateTweet tweet])
                 | PostUnexpectedError \<Rightarrow> (Inr 6, tr @ [CreateTweet tweet])
                 | PostOk tweet_id \<Rightarrow> (Inr 0, tr @ [CreateTweet tweet])))))"

section \<open>\<open>Tweet/X Automation/script.py\<close>: the two-platform script\<close>

definition generate_learning_update_xa ::
  "world \<Rightarrow> (exn + pystr \<times> pystr) \<times> event list" where
  "generate_learning_update_xa w =
     (case read_text_from_file w ''input.txt'' of
        Inl e \<Rightarrow> (Inr ([], []), [])
      | Inr raw_text \<Rightarrow>
          if raw_text = [] then (Inr ([], []), [])
          else
            (case paraphrase_for_tweet w raw_text of
               (Inl e, tr1) \<Rightarrow> (Inl e, tr1)
             | (Inr tweet, tr1) \<Rightarrow>
                 (case paraphrase_for_linkedin w raw_text of
                    (Inl e, tr2) \<Rightarrow> (Inl e, tr1 @ tr2)
                  | (Inr linkedin_post, tr2) \<Rightarrow> (Inr (tweet, linkedin_post), tr1 @ tr2))))"

text \<open>
  \<open>save_output\<close>: the list handed to \<open>writelines\<close>; a failure of \<open>open\<close> or of the write is
  caught inside and leaves no event.  The clock is read once per run in this model.
\<close>

definition output_record :: "world \<Rightarrow> pystr \<Rightarrow> pystr \<Rightarrow> pystr option \<Rightarrow> pystr list" where
  "output_record w tweet linkedin_post note =
     [str_of ''===== Generated on '' @ utcnow_iso w @ str_of ''Z ====='' @ [NL]]
     @ (case note of
          None \<Rightarrow> []
        | Some n \<Rightarrow> if n = [] then [] else [str_of ''NOTE: '' @ n @ [NL]])
     @ [str_of ''--- X / TWEET ---'' @ [NL],
        str_rstrip tweet @ [NL, NL],
        str_of ''--- LINKEDIN POST ---'' @ [NL],
        str_rstrip linkedin_post @ [NL],
        [NL]]"

definition save_output ::
  "world \<Rightarrow> pystr \<Rightarrow> pystr \<Rightarrow> pystr \<Rightarrow> pystr option \<Rightarrow> event list" where
  "save_output w tweet linkedin_post path note =
     (if can_append w path
      then [FileAppend path (output_record w tweet linkedin_post note)]
      else [])"

text \<open>
  The confirmation gate: \<open>--yes\<close>, or else one line read from the terminal, stripped and
  lower-cased, where a failing \<open>input\<close> counts as \<open>"n"\<close>.
\<close>

definition confirm :: "world \<Rightarrow> bool \<times> event list" where
  "confirm w =
     (if arg_yes w then (True, [])
      else
        (let resp = (case stdin_line w of
                       None \<Rightarrow> str_of ''n''
                     | Some line \<Rightarrow> str_lower (str_strip line))
         in (resp = str_of ''y'', [Input (str_of ''Post the tweet now? (y/N): '')])))"

definition post_tweet_xa :: "world \<Rightarrow> pystr \<Rightarrow> pystr \<Rightarrow> (exn + nat) \<times> event list" where
  "post_tweet_xa w tweet linkedin_post =
     (case create_tweet w tweet of
        PostApiError \<Rightarrow>
          (Inr 6, CreateTweet tweet
                  # save_output w tweet linkedin_post (arg_output w)
                      (Some (str_of ''Failed to post tweet (API error)'')))
      | PostUnexpectedError \<Rightarrow>
          (Inr 7, CreateTweet tweet
                  # save_output w tweet linkedin_post (arg_output w)
                      (Some (str_of ''Failed to post tweet (unexpected error)'')))
      | PostOk tweet_id \<Rightarrow>
          (Inr 0, CreateTweet tweet
                  # save_output w tweet linkedin_post (arg_output w)
                      (case tweet_id of
                         None \<Rightarrow> Some (str_of ''Tweet posted (no id returned)'')
                       | Some i \<Rightarrow>
                           if i = [] then Some (str_of ''Tweet posted (no id returned)'')
                           else Some (str_of ''Tweet posted (id='' @ i @ str_of '')''))))"

definition main_xa :: "world \<Rightarrow> (exn + nat) \<times> event list" where
  "main_xa w =
     (case generate_learning_update_xa w of
        (Inl e, tr) \<Rightarrow> (Inl e, tr)
      | (Inr (generated, linkedin_post), tr) \<Rightarrow>
         (let tweet = truncate_tweet generated in
          if tweet = [] then (Inr 4, tr)
          else if linkedin_post = [] then (Inr 5, tr)
          else
            (let tr1 = tr
                   @ save_output w tweet linkedin_post (arg_output w)
                       (if dry_run w then Some (str_of ''DRY RUN'') else None)
                   @ [Print (NL # str_of ''--- X / TWITTER PREVIEW ---'' @ [NL]),
                      Print tweet,
                      Print (NL # str_of ''--- LINKEDIN POST PREVIEW ---'' @ [NL]),
                      Print linkedin_post]
             in if dry_run w then (Inr 0, tr1)
                else
                  (case init_client w of
                     Inl (EnvironmentError name) \<Rightarrow> (Inr 2, tr1)
                   | Inl _ \<Rightarrow> (Inr 3, tr1)
                   | Inr _ \<Rightarrow>
                      (case confirm w of
                         (False, tr2) \<Rightarrow>
                           (Inr 0, tr1 @ tr2
                                   @ save_output w tweet linkedin_post (arg_output w)
                                       (Some (str_of ''User skipped posting'')))
                       | (True, tr2) \<Rightarrow>
                           (case post_tweet_xa w tweet linkedin_post of
                              (r, tr3) \<Rightarrow> (r, tr1 @ tr2 @ tr3)))))))"

section \<open>\<open>Tweet/X Automation/tweet.py\<close>\<close>

text \<open>
  \<open>paraphrase_text\<close>: a missing key raises \<open>RuntimeError\<close>, and the call of the service is
  not inside a \<open>try\<close>.
\<close>

definition paraphrase_text :: "world \<Rightarrow> pystr \<Rightarrow> (exn + pystr) \<times> event list" where
  "paraphrase_text w text =
     (case getenv w ''GEMINI_API_KEY'' of
        None \<Rightarrow> (Inl RuntimeError, [])
      | Some api_key \<Rightarrow>
          if api_key = [] then (Inl RuntimeError, [])
          else
            (case generate_content w api_key (TweetPrompt text) of
               GenRaises \<Rightarrow> (Inl OtherException, [GenerateContent api_key (TweetPrompt text)])
             | GenText t \<Rightarrow>
                 (Inr (shape_text (str_strip t)),
                  [GenerateContent api_key (TweetPrompt text)])))"

text \<open>
  The end of a run of newlines: a string that is empty or does not start with a newline.
\<close>

definition run_end :: "pystr \<Rightarrow> bool" where
  "run_end rest \<longleftrightarrow> (rest = [] \<or> hd rest \<noteq> NL)"

section \<open>Sample environments\<close>

text \<open>
  Concrete environments on which the scripts are evaluated: one where every service
  answers, and variations of it with the generation key removed, a posting call that fails,
  a blank input file, missing posting credentials, a failing long-form generation, and
  \<open>DRY_RUN=true\<close>.
\<close>

definition env_of :: "(string \<times> string) list \<Rightarrow> string \<Rightarrow> pystr option" where
  "env_of kvs name = map_option str_of (map_of kvs name)"

definition sample_raw :: pystr where
  "sample_raw = str_of ''Day 5: learned recursion.''"

definition sample_tweet :: pystr where
  "sample_tweet = str_of ''Day 5: recursion!''"

definition sample_post :: pystr where
  "sample_post = str_of ''Today I learned recursion.''"

definition sample_world :: world where
  "sample_world =
     \<lparr> getenv = env_of [(''GEMINI_API_KEY'', ''g''), (''X_API_KEY'', ''a''),
                         (''X_API_SECRET'', ''b''), (''X_ACCESS_TOKEN'', ''c''),
                         (''X_ACCESS_SECRET'', ''d'')],
       read_file = (\<lambda>p. FileContents sample_raw),
       generate_content =
         (\<lambda>k p. case p of
                   TweetPrompt t \<Rightarrow> GenText sample_tweet
                 | LinkedInPrompt t \<Rightarrow> GenText sample_post),
       client_init_fails = False,
       create_tweet = (\<lambda>t. PostOk (Some (str_of ''42''))),
       can_append = (\<lambda>p. True),
       arg_yes = True,
       arg_output = str_of ''output.txt'',
       stdin_line = None,
       utcnow_iso = str_of ''2026-01-01T00:00:00'' \<rparr>"

definition no_key_world :: world where
  "no_key_world =
     sample_world\<lparr> getenv := env_of [(''X_API_KEY'', ''a''), (''X_API_SECRET'', ''b''),
                                       (''X_ACCESS_TOKEN'', ''c''), (''X_ACCESS_SECRET'', ''d'')] \<rparr>"

definition api_error_world :: world where
  "api_error_world = sample_world\<lparr> create_tweet := (\<lambda>t. PostApiError) \<rparr>"

definition unexpected_error_world :: world where
  "unexpected_error_world = sample_world\<lparr> create_tweet := (\<lambda>t. PostUnexpectedError) \<rparr>"

definition empty_file_world :: world where
  "empty_file_world = sample_world\<lparr> read_file := (\<lambda>p. FileContents [SPACE, NL]) \<rparr>"

definition empty_file_no_creds_world :: world where
  "empty_file_no_creds_world =
     empty_file_world\<lparr> getenv := env_of [(''GEMINI_API_KEY'', ''g'')] \<rparr>"

definition no_linkedin_world :: world where
  "no_linkedin_world =
     sample_world\<lparr> generate_content :=
       (\<lambda>k p. case p of
                 TweetPrompt t \<Rightarrow> GenText sample_tweet
               | LinkedInPrompt t \<Rightarrow> GenRaises) \<rparr>"

definition dry_world :: world where
  "dry_world =
     sample_world\<lparr> getenv := env_of [(''DRY_RUN'', ''true''), (''GEMINI_API_KEY'', ''g''),
                                       (''X_API_KEY'', ''a''), (''X_API_SECRET'', ''b''),
                                       (''X_ACCESS_TOKEN'', ''c''), (''X_ACCESS_SECRET'', ''d'')] \<rparr>"

section \<open>Properties of the blank-line loop\<close>

lemma collapse_loop_total: "collapse_loop s = Some (normalize_blank_lines s)"
proof (induction s rule: normalize_blank_lines.induct)
  case (1 tweet)
  show ?case
  proof (cases "sublist NL3 tweet")
    case True
    with 1 show ?thesis
      by (subst collapse_loop.simps, subst normalize_blank_lines.simps) simp
  next
    case False
    then show ?thesis
      by (subst collapse_loop.simps, subst normalize_blank_lines.simps) simp
  qed
qed

lemma normalize_no_triple: "\<not> sublist NL3 (normalize_blank_lines s)"
proof (induction s rule: normalize_blank_lines.induct)
  case (1 tweet)
  then show ?case by (subst normalize_blank_lines.simps) simp
qed

lemma normalize_fixed: "\<not> sublist NL3 s \<Longrightarrow> normalize_blank_lines s = s"
  by (subst normalize_blank_lines.simps) simp

lemma normalize_length_le: "length (normalize_blank_lines s) \<le> length s"
proof (induction s rule: normalize_blank_lines.induct)
  case (1 tweet)
  show ?case
  proof (cases "sublist NL3 tweet")
    case True
    with 1 have "length (normalize_blank_lines (str_replace NL3 NL2 tweet))
                   \<le> length (str_replace NL3 NL2 tweet)" by simp
    also have "\<dots> < length tweet" using True by (rule NL3_step_decreases)
    finally show ?thesis using True by (subst normalize_blank_lines.simps) simp
  next
    case False
    then show ?thesis by (simp add: normalize_fixed)
  qed
qed

text \<open>
  C10.  The blank-line loop ends on every string: each pass of its body, taken when the
  loop condition holds, returns a strictly shorter string, and the loop as translated
  (without any assumption of termination) returns a value.
\<close>

theorem collapse_loop_terminates:
  "(sublist NL3 s \<longrightarrow> length (str_replace NL3 NL2 s) < length s)
   \<and> (\<exists>t. collapse_loop s = Some t)"
  by (simp add: NL3_step_decreases collapse_loop_total)

theorem collapse_loop_terminates_witness:
  "sublist NL3 [NL, NL, NL, NL, NL]
   \<and> length (str_replace NL3 NL2 [NL, NL, NL, NL, NL]) < length [NL, NL, NL, NL, NL]
   \<and> (\<exists>t. collapse_loop [NL, NL, NL, NL, NL] = Some t)"
proof -
  have h: "sublist NL3 [NL, NL, NL, NL, NL]"
    by (simp add: NL3_def sublist_Cons_right)
  show ?thesis
    using h collapse_loop_terminates [of "[NL, NL, NL, NL, NL]"] by simp
qed

text \<open>
  C7.  Blank-line collapsing is idempotent: running the loop on its own result changes
  nothing, for the total function and for the loop as translated.
\<close>

theorem collapse_idempotent:
  "normalize_blank_lines (normalize_blank_lines s) = normalize_blank_lines s
   \<and> Option.bind (collapse_loop s) collapse_loop = collapse_loop s"
  by (simp add: collapse_loop_total normalize_fixed normalize_no_triple)

section \<open>The loop against the spec's wording\<close>

text \<open>
  A string that starts with a newline splits into its leading run of newlines and a rest
  that does not start with one.  One pass of \<open>replace\<close> turns a run of \<open>k\<close> newlines
  into one of \<open>2 * (k div 3) + k mod 3\<close>, so it keeps what \<open>collapse_runs\<close> returns.
\<close>

lemma run_end_dropWhile: "run_end (dropWhile (\<lambda>x. x = NL) s)"
  unfolding run_end_def using hd_dropWhile [of "\<lambda>x. x = NL" s] by blast

lemma takeWhile_run: "takeWhile (\<lambda>x. x = NL) s = replicate (length (takeWhile (\<lambda>x. x = NL) s)) NL"
proof -
  have "\<forall>y \<in> set (takeWhile (\<lambda>x. x = NL) s). y = NL"
    by (auto dest: set_takeWhileD)
  then show ?thesis by (simp add: replicate_length_same)
qed

lemma run_split:
  "s = replicate (length (takeWhile (\<lambda>x. x = NL) s)) NL @ dropWhile (\<lambda>x. x = NL) s"
  using takeWhile_run [of s] takeWhile_dropWhile_id [of "\<lambda>x. x = NL" s] by simp

lemma takeWhile_run_end: "run_end rest \<Longrightarrow> takeWhile (\<lambda>x. x = NL) rest = []"
  by (cases rest) (auto simp: run_end_def)

lemma dropWhile_run_end: "run_end rest \<Longrightarrow> dropWhile (\<lambda>x. x = NL) rest = rest"
  by (cases rest) (auto simp: run_end_def)

lemma takeWhile_replicate_run:
  "run_end rest \<Longrightarrow> takeWhile (\<lambda>x. x = NL) (replicate k NL @ rest) = replicate k NL"
  by (induction k) (simp_all add: takeWhile_run_end)

lemma dropWhile_replicate_run:
  "run_end rest \<Longrightarrow> dropWhile (\<lambda>x. x = NL) (replicate k NL @ rest) = rest"
  by (induction k) (simp_all add: dropWhile_run_end)

lemma collapse_runs_run:
  assumes "run_end rest" "0 < k"
  shows "collapse_runs (replicate k NL @ rest)
           = (if 3 \<le> k then [NL, NL] else replicate k NL) @ collapse_runs rest"
proof -
  from assms(2) obtain m where k: "k = Suc m" by (cases k) auto
  have tw: "takeWhile (\<lambda>x. x = NL) (NL # replicate m NL @ rest) = replicate k NL"
    using takeWhile_replicate_run [OF assms(1), of k] by (simp add: k)
  have dw: "dropWhile (\<lambda>x. x = NL) (NL # replicate m NL @ rest) = rest"
    using dropWhile_replicate_run [OF assms(1), of k] by (simp add: k)
  have "collapse_runs (NL # replicate m NL @ rest)
          = (if 3 \<le> k then [NL, NL] else replicate k NL) @ collapse_runs rest"
    by (subst collapse_runs.simps) (simp only: tw dw Let_def length_replicate if_True refl)
  then show ?thesis by (simp add: k)
qed

lemma replace_scan_run_end: "run_end rest \<Longrightarrow> run_end (replace_scan NL3 NL2 rest)"
  by (cases rest) (auto simp: run_end_def NL3_def)

lemma shrink_pos: "0 < k \<Longrightarrow> 0 < 2 * (k div 3) + k mod (3::nat)"
proof -
  assume "0 < k"
  define d where "d = k div 3"
  define r where "r = k mod 3"
  have "k = d * 3 + r" unfolding d_def r_def by simp
  with \<open>0 < k\<close> have "0 < 2 * d + r" by linarith
  then show ?thesis unfolding d_def r_def .
qed

lemma shrink_ge2: "3 \<le> k \<Longrightarrow> 2 \<le> 2 * (k div 3) + k mod (3::nat)"
proof -
  assume "3 \<le> k"
  then have "1 \<le> k div 3" by (simp add: Suc_le_eq div_greater_zero_iff)
  then show ?thesis by linarith
qed

lemma run_length_cases:
  "(k::nat) = 0 \<or> k = 1 \<or> k = 2 \<or> (\<exists>m. k = Suc (Suc (Suc m)))"
proof (cases k)
  case 0 then show ?thesis by simp
next
  case (Suc a)
  then show ?thesis
  proof (cases a)
    case 0 with Suc show ?thesis by simp
  next
    case (Suc b)
    with \<open>k = Suc a\<close> show ?thesis by (cases b) auto
  qed
qed

lemma replace_scan_run:
  "run_end rest \<Longrightarrow>
   replace_scan NL3 NL2 (replicate k NL @ rest)
     = replicate (2 * (k div 3) + k mod 3) NL @ replace_scan NL3 NL2 rest"
proof (induction k rule: less_induct)
  case (less k)
  consider "k = 0" | "k = 1" | "k = 2" | m where "k = Suc (Suc (Suc m))"
    using run_length_cases [of k] by blast
  then show ?case
  proof cases
    case 1
    then show ?thesis by simp
  next
    case 2
    with less(2) show ?thesis by (cases rest) (auto simp: NL3_def run_end_def)
  next
    case 3
    with less(2) show ?thesis
      by (cases rest) (auto simp: NL3_def run_end_def numeral_2_eq_2)
  next
    case 4
    have "replace_scan NL3 NL2 (replicate m NL @ rest)
            = replicate (2 * (m div 3) + m mod 3) NL @ replace_scan NL3 NL2 rest"
      using less(1) [of m] less(2) 4 by simp
    moreover have "2 * (k div 3) + k mod 3 = Suc (Suc (2 * (m div 3) + m mod 3))"
      using 4 by (simp add: div_Suc mod_Suc) presburger
    ultimately show ?thesis using 4 by (simp add: NL3_def NL2_def)
  qed
qed

lemma collapse_runs_replace: "collapse_runs (replace_scan NL3 NL2 s) = collapse_runs s"
proof (induction s rule: length_induct)
  case (1 s)
  show ?case
  proof (cases s)
    case Nil
    then show ?thesis by simp
  next
    case (Cons c cs)
    show ?thesis
    proof (cases "c = NL")
      case False
      then have "replace_scan NL3 NL2 (c # cs) = c # replace_scan NL3 NL2 cs"
        by (simp add: NL3_def)
      moreover have "collapse_runs (replace_scan NL3 NL2 cs) = collapse_runs cs"
        using 1 Cons by simp
      ultimately show ?thesis using False Cons by simp
    next
      case True
      define k where "k = length (takeWhile (\<lambda>x. x = NL) s)"
      define rest where "rest = dropWhile (\<lambda>x. x = NL) s"
      have s: "s = replicate k NL @ rest" unfolding k_def rest_def by (rule run_split)
      have re: "run_end rest" unfolding rest_def by (rule run_end_dropWhile)
      have kpos: "0 < k" unfolding k_def using True Cons by simp
      have shorter: "length rest < length s" using s kpos by (subst s) simp
      have ih: "collapse_runs (replace_scan NL3 NL2 rest) = collapse_runs rest"
        using 1 shorter by blast
      let ?f = "2 * (k div 3) + k mod 3"
      have fpos: "0 < ?f" using kpos by (rule shrink_pos)
      have "collapse_runs (replace_scan NL3 NL2 s)
              = collapse_runs (replicate ?f NL @ replace_scan NL3 NL2 rest)"
        using replace_scan_run [OF re, of k] s by simp
      also have "\<dots> = (if 3 \<le> ?f then [NL, NL] else replicate ?f NL)
                         @ collapse_runs (replace_scan NL3 NL2 rest)"
        by (rule collapse_runs_run [OF replace_scan_run_end [OF re] fpos])
      also have "(if 3 \<le> ?f then [NL, NL] else replicate ?f NL)
                   = (if 3 \<le> k then [NL, NL] else replicate k NL)"
      proof -
        consider "k = 1" | "k = 2" | "3 \<le> k" using kpos by linarith
        then show ?thesis
        proof cases
          case 1 then show ?thesis by simp
        next
          case 2 then show ?thesis by (simp add: numeral_2_eq_2)
        next
          case 3
          then have "2 \<le> ?f" by (rule shrink_ge2)
          then have "(if 3 \<le> ?f then [NL, NL] else replicate ?f NL) = [NL, NL]"
            by (cases "?f = 2") (auto simp: numeral_2_eq_2)
          with 3 show ?thesis by simp
        qed
      qed
      also have "\<dots> @ collapse_runs (replace_scan NL3 NL2 rest) = collapse_runs s"
        using collapse_runs_run [OF re kpos] s ih by simp
      finally show ?thesis .
    qed
  qed
qed

lemma sublist_NL3_run: "3 \<le> k \<Longrightarrow> sublist NL3 (replicate k NL @ rest)"
proof -
  assume "3 \<le> k"
  then obtain m where "k = 3 + m" using le_Suc_ex by blast
  then have "replicate k NL @ rest = [] @ NL3 @ (replicate m NL @ rest)"
    by (simp add: NL3_def replicate_add numeral_3_eq_3)
  then show ?thesis unfolding sublist_def by blast
qed

lemma collapse_runs_fixed: "\<not> sublist NL3 s \<Longrightarrow> collapse_runs s = s"
proof (induction s rule: length_induct)
  case (1 s)
  show ?case
  proof (cases s)
    case Nil
    then show ?thesis by simp
  next
    case (Cons c cs)
    show ?thesis
    proof (cases "c = NL")
      case False
      have "\<not> sublist NL3 cs" using 1(2) Cons by (auto simp: sublist_Cons_right)
      then have "collapse_runs cs = cs" using 1(1) Cons by simp
      then show ?thesis using False Cons by simp
    next
      case True
      define k where "k = length (takeWhile (\<lambda>x. x = NL) s)"
      define rest where "rest = dropWhile (\<lambda>x. x = NL) s"
      have s: "s = replicate k NL @ rest" unfolding k_def rest_def by (rule run_split)
      have re: "run_end rest" unfolding rest_def by (rule run_end_dropWhile)
      have kpos: "0 < k" unfolding k_def using True Cons by simp
      have shorter: "length rest < length s" using s kpos by (subst s) simp
      have k3: "\<not> 3 \<le> k" using 1(2) s sublist_NL3_run [of k rest] by auto
      have "sublist rest s" by (subst s) simp
      then have "\<not> sublist NL3 rest" using 1(2) sublist_order.order_trans by blast
      then have "collapse_runs rest = rest" using 1(1) shorter by blast
      then show ?thesis using collapse_runs_run [OF re kpos] s k3 by simp
    qed
  qed
qed

lemma normalize_is_collapse_runs: "normalize_blank_lines s = collapse_runs s"
proof (induction s rule: normalize_blank_lines.induct)
  case (1 tweet)
  show ?case
  proof (cases "sublist NL3 tweet")
    case True
    have "normalize_blank_lines tweet = normalize_blank_lines (str_replace NL3 NL2 tweet)"
      using True by (subst normalize_blank_lines.simps) simp
    also have "\<dots> = collapse_runs (str_replace NL3 NL2 tweet)" using 1 True by simp
    also have "\<dots> = collapse_runs tweet"
      by (simp add: str_replace_def NL3_def collapse_runs_replace [unfolded NL3_def])
    finally show ?thesis .
  next
    case False
    then show ?thesis by (simp add: normalize_fixed collapse_runs_fixed)
  qed
qed

lemma replace_scan_single_length: "length (replace_scan [a] [b] s) = length s"
  by (induction s) auto

lemma str_replace_single_length: "length (str_replace [a] [b] s) = length s"
  by (simp add: str_replace_def replace_scan_single_length)

lemma collapse_runs_no_newline: "NL \<notin> set s \<Longrightarrow> collapse_runs s = s"
  by (induction s) auto

section \<open>Properties of tweet shaping\<close>

text \<open>
  C6.  A string of at most 280 characters is not truncated by tweet shaping: the result is
  what the blank-line loop returns, and that is the string with every run of three or more
  newlines replaced by exactly two.
\<close>

theorem shape_tweet_short:
  "length s \<le> 280 \<Longrightarrow>
   shape_tweet s = normalize_blank_lines s \<and> normalize_blank_lines s = collapse_runs s"
proof -
  assume "length s \<le> 280"
  then have "length (normalize_blank_lines s) \<le> 280"
    using normalize_length_le [of s] by linarith
  then show ?thesis
    by (simp add: shape_tweet_def MAX_TWEET_LENGTH_def normalize_is_collapse_runs)
qed

theorem shape_tweet_short_witness:
  "length [97, NL, NL, NL, NL, 98, NL, NL, 99] \<le> 280
   \<and> shape_tweet [97, NL, NL, NL, NL, 98, NL, NL, 99] = [97, NL, NL, 98, NL, NL, 99]"
proof -
  have h: "length [97, NL, NL, NL, NL, 98, NL, NL, 99] \<le> 280" by simp
  have "collapse_runs [97, NL, NL, NL, NL, 98, NL, NL, 99] = [97, NL, NL, 98, NL, NL, 99]"
    by (simp add: NL_def)
  then show ?thesis using shape_tweet_short [OF h] by simp
qed

text \<open>
  C1 as stated fails.  A string of 281 characters whose middle is a run of 279 newlines is
  shaped to four characters, since the length is tested after the blank-line loop; and
  \<open>paraphrase_text\<close> closes a long tweet with three full stops, not with the ellipsis
  character.
\<close>

theorem shape_tweet_long_counterexample:
  "length (97 # replicate 279 NL @ [98]) > 280
   \<and> shape_tweet (97 # replicate 279 NL @ [98]) = [97, NL, NL, 98]
   \<and> length (replicate 281 (97::nat)) > 280
   \<and> last (shape_text (replicate 281 97)) \<noteq> ELLIPSIS"
proof -
  have re: "run_end [98]" by (simp add: run_end_def NL_def)
  have "collapse_runs (replicate 279 NL @ [98]) = [NL, NL] @ collapse_runs [98]"
    using collapse_runs_run [OF re, of 279] by simp
  then have "normalize_blank_lines (97 # replicate 279 NL @ [98]) = [97, NL, NL, 98]"
    by (simp add: normalize_is_collapse_runs NL_def)
  then have "shape_tweet (97 # replicate 279 NL @ [98]) = [97, NL, NL, 98]"
    by (simp add: shape_tweet_def MAX_TWEET_LENGTH_def)
  moreover have "last (shape_text (replicate 281 97)) \<noteq> ELLIPSIS"
    by (simp add: shape_text_def Let_def str_replace_single_length str_of_def ELLIPSIS_def)
  ultimately show ?thesis by simp
qed

text \<open>
  C1, amended.  When the string returned by the blank-line loop has more than 280
  characters, \<open>paraphrase_for_tweet\<close> shapes it to its first 279 characters followed by
  one ellipsis character: 280 characters in all, the last one the ellipsis.  When the text
  given to the shaping of \<open>paraphrase_text\<close> has more than 280 characters, the result is
  the first 277 characters of the text with every newline replaced by a space, followed
  by three full stops: again 280 characters.
\<close>

theorem shape_tweet_long:
  "(length (normalize_blank_lines s) > 280 \<longrightarrow>
      shape_tweet s = take 279 (normalize_blank_lines s) @ [ELLIPSIS]
      \<and> length (shape_tweet s) = 280 \<and> last (shape_tweet s) = ELLIPSIS)
   \<and> (length s > 280 \<longrightarrow>
      shape_text s = take 277 (str_replace [NL] [SPACE] s) @ str_of ''...''
      \<and> length (shape_text s) = 280)"
  by (simp add: shape_tweet_def shape_text_def MAX_TWEET_LENGTH_def Let_def
      str_replace_single_length str_of_def)

theorem shape_tweet_long_witness:
  "length (normalize_blank_lines (replicate 281 97)) > 280
   \<and> length (shape_tweet (replicate 281 97)) = 280
   \<and> last (shape_tweet (replicate 281 97)) = ELLIPSIS
   \<and> length (replicate 281 (97::nat)) > 280
   \<and> length (shape_text (replicate 281 97)) = 280"
proof -
  have "normalize_blank_lines (replicate 281 97) = replicate 281 97"
    by (simp add: normalize_is_collapse_runs collapse_runs_no_newline NL_def)
  then have h1: "length (normalize_blank_lines (replicate 281 97)) > 280" by simp
  have h2: "length (replicate 281 (97::nat)) > 280" by simp
  show ?thesis using shape_tweet_long [of "replicate 281 97"] h1 h2 by blast
qed

section \<open>Length bounds\<close>

lemma normalize_Nil: "normalize_blank_lines [] = []"
  by (simp add: normalize_fixed NL3_def)

lemma shape_tweet_length: "length (shape_tweet s) \<le> 280"
  by (simp add: shape_tweet_def MAX_TWEET_LENGTH_def Let_def)

lemma shape_linkedin_length: "length (shape_linkedin s) \<le> 3000"
  by (simp add: shape_linkedin_def MAX_LINKEDIN_LENGTH_def)

lemma truncate_tweet_length: "length (truncate_tweet s) \<le> 280"
  by (simp add: truncate_tweet_def MAX_TWEET_LENGTH_def)

lemma paraphrase_for_tweet_length:
  "fst (paraphrase_for_tweet w text) = Inr r \<Longrightarrow> length r \<le> 280"
  by (auto simp: paraphrase_for_tweet_def shape_tweet_length
      split: if_splits sum.splits gen_result.splits)

lemma paraphrase_for_linkedin_length:
  "fst (paraphrase_for_linkedin w text) = Inr r \<Longrightarrow> length r \<le> 3000"
  by (auto simp: paraphrase_for_linkedin_def shape_linkedin_length
      split: if_splits sum.splits gen_result.splits)

lemma str_strip_plain:
  "s \<noteq> [] \<Longrightarrow> \<not> is_space (hd s) \<Longrightarrow> \<not> is_space (last s) \<Longrightarrow> str_strip s = s"
proof -
  assume a: "s \<noteq> []" "\<not> is_space (hd s)" "\<not> is_space (last s)"
  then have "dropWhile is_space s = s" by (cases s) auto
  moreover have "dropWhile is_space (rev s) = rev s"
    using a by (cases "rev s") (auto simp: last_rev [symmetric] hd_rev)
  ultimately show ?thesis by (simp add: str_strip_def str_rstrip_def)
qed

lemma shape_tweet_plain: "NL \<notin> set s \<Longrightarrow> length s \<le> 280 \<Longrightarrow> shape_tweet s = s"
  by (simp add: shape_tweet_def normalize_is_collapse_runs collapse_runs_no_newline
      MAX_TWEET_LENGTH_def)

lemma shape_linkedin_plain: "length s \<le> 3000 \<Longrightarrow> shape_linkedin s = s"
  by (simp add: shape_linkedin_def MAX_LINKEDIN_LENGTH_def)

lemma truncate_tweet_plain: "length s \<le> 280 \<Longrightarrow> truncate_tweet s = s"
  by (simp add: truncate_tweet_def MAX_TWEET_LENGTH_def)

lemma sample_raw_facts: "sample_raw \<noteq> []" "str_strip sample_raw = sample_raw"
  by (simp_all add: sample_raw_def str_of_def str_strip_plain is_space_def)

lemma sample_tweet_facts:
  "sample_tweet \<noteq> []" "str_strip sample_tweet = sample_tweet"
  "shape_tweet sample_tweet = sample_tweet" "truncate_tweet sample_tweet = sample_tweet"
  "length sample_tweet \<le> 280"
  by (simp_all add: sample_tweet_def str_of_def str_strip_plain is_space_def
      shape_tweet_plain truncate_tweet_plain NL_def)

lemma sample_post_facts:
  "sample_post \<noteq> []" "str_strip sample_post = sample_post"
  "shape_linkedin sample_post = sample_post" "length sample_post \<le> 3000"
  "sample_post \<noteq> sample_tweet"
  by (simp_all add: sample_post_def sample_tweet_def str_of_def str_strip_plain is_space_def
      shape_linkedin_plain)

section \<open>Traces of the scripts\<close>

text \<open>
  Generation, recording and the confirmation gate make no posting call; the only posting
  call of either script is the one \<open>create_tweet\<close> in \<open>main\<close>.
\<close>

lemma posting_calls_append [simp]:
  "posting_calls (xs @ ys) = posting_calls xs @ posting_calls ys"
  by (induction xs rule: posting_calls.induct) auto

lemma appended_append [simp]: "appended (xs @ ys) = appended xs @ appended ys"
  by (induction xs rule: appended.induct) auto

lemma truncate_tweet_empty_iff [simp]: "truncate_tweet t = [] \<longleftrightarrow> t = []"
  by (auto simp: truncate_tweet_def MAX_TWEET_LENGTH_def)

lemma paraphrase_for_tweet_trace:
  "posting_calls (snd (paraphrase_for_tweet w text)) = []
   \<and> appended (snd (paraphrase_for_tweet w text)) = []"
  by (auto simp: paraphrase_for_tweet_def split: sum.splits gen_result.splits)

lemma paraphrase_for_linkedin_trace:
  "posting_calls (snd (paraphrase_for_linkedin w text)) = []
   \<and> appended (snd (paraphrase_for_linkedin w text)) = []"
  by (auto simp: paraphrase_for_linkedin_def split: sum.splits gen_result.splits)

lemma generate_learning_update_trace:
  "posting_calls (snd (generate_learning_update w)) = []
   \<and> appended (snd (generate_learning_update w)) = []"
  by (auto simp: generate_learning_update_def paraphrase_for_tweet_trace split: sum.splits)

lemma generate_learning_update_xa_trace:
  "posting_calls (snd (generate_learning_update_xa w)) = []
   \<and> appended (snd (generate_learning_update_xa w)) = []"
proof -
  have t: "\<And>text r tr. paraphrase_for_tweet w text = (r, tr) \<Longrightarrow>
             posting_calls tr = [] \<and> appended tr = []"
    using paraphrase_for_tweet_trace by (metis snd_conv)
  have l: "\<And>text r tr. paraphrase_for_linkedin w text = (r, tr) \<Longrightarrow>
             posting_calls tr = [] \<and> appended tr = []"
    using paraphrase_for_linkedin_trace by (metis snd_conv)
  show ?thesis
    by (auto simp: generate_learning_update_xa_def dest: t l split: sum.splits prod.splits)
qed

lemma save_output_posting [simp]: "posting_calls (save_output w t l p n) = []"
  by (simp add: save_output_def)

lemma confirm_posting: "posting_calls (snd (confirm w)) = []"
  by (simp add: confirm_def Let_def)

lemma glu_cases:
  obtains e tr where "generate_learning_update w = (Inl e, tr)" "posting_calls tr = []" "appended tr = []"
  | t tr where "generate_learning_update w = (Inr t, tr)" "posting_calls tr = []" "appended tr = []"
proof -
  obtain r tr where g: "generate_learning_update w = (r, tr)" by (cases "generate_learning_update w")
  have "posting_calls tr = []" "appended tr = []"
    using generate_learning_update_trace [of w] g by simp_all
  with g that show ?thesis by (cases r) auto
qed

lemma glu_xa_cases:
  obtains e tr where "generate_learning_update_xa w = (Inl e, tr)" "posting_calls tr = []" "appended tr = []"
  | t l tr where "generate_learning_update_xa w = (Inr (t, l), tr)" "posting_calls tr = []" "appended tr = []"
proof -
  obtain r tr where g: "generate_learning_update_xa w = (r, tr)"
    by (cases "generate_learning_update_xa w")
  have "posting_calls tr = []" "appended tr = []"
    using generate_learning_update_xa_trace [of w] g by simp_all
  with g that show ?thesis by (cases r) auto
qed

lemma main_exit_4:
  "init_client w = Inr () \<Longrightarrow> fst (generate_learning_update w) = Inr t \<Longrightarrow> t = []
   \<Longrightarrow> fst (main w) = Inr 4"
  by (cases "generate_learning_update w") (simp add: main_def)

lemma main_init_fails: "init_client w = Inl e \<Longrightarrow> main w = (Inr 2, []) \<or> main w = (Inr 3, [])"
  by (cases e) (simp_all add: main_def)

lemma main_posting:
  "posting_calls (snd (main w)) = [] \<and> fst (main w) \<noteq> Inr 5 \<and> fst (main w) \<noteq> Inr 6
   \<or> (\<exists>t. posting_calls (snd (main w)) = [t]
         \<and> (fst (main w) = Inr 5 \<longleftrightarrow> create_tweet w t = PostApiError)
         \<and> (fst (main w) = Inr 6 \<longleftrightarrow> create_tweet w t = PostUnexpectedError))"
proof (cases "init_client w")
  case (Inl e)
  then show ?thesis using main_init_fails [OF Inl] by auto
next
  case (Inr u)
  show ?thesis
  proof (cases w rule: glu_cases)
    case (1 e tr)
    with Inr show ?thesis by (simp add: main_def)
  next
    case (2 t tr)
    with Inr show ?thesis
      by (cases "create_tweet w (truncate_tweet t)") (auto simp: main_def Let_def)
  qed
qed

lemma main_not_7: "fst (main w) \<noteq> Inr 7"
proof (cases "init_client w")
  case (Inl e)
  then show ?thesis using main_init_fails [OF Inl] by auto
next
  case (Inr u)
  show ?thesis
  proof (cases w rule: glu_cases)
    case (1 e tr)
    with Inr show ?thesis by (simp add: main_def)
  next
    case (2 t tr)
    with Inr show ?thesis
      by (cases "create_tweet w (truncate_tweet t)") (auto simp: main_def Let_def)
  qed
qed

lemma main_appended: "appended (snd (main w)) = []"
proof (cases "init_client w")
  case (Inl e)
  then show ?thesis using main_init_fails [OF Inl] by auto
next
  case (Inr u)
  show ?thesis
  proof (cases w rule: glu_cases)
    case (1 e tr)
    with Inr show ?thesis by (simp add: main_def)
  next
    case (2 t tr)
    with Inr show ?thesis
      by (cases "create_tweet w (truncate_tweet t)") (auto simp: main_def Let_def)
  qed
qed

lemma main_dry_run:
  "dry_run w \<Longrightarrow> init_client w = Inr () \<Longrightarrow> fst (generate_learning_update w) = Inr t
   \<Longrightarrow> t \<noteq> [] \<Longrightarrow> fst (main w) = Inr 0 \<and> posting_calls (snd (main w)) = []"
  by (cases w rule: glu_cases) (auto simp: main_def Let_def)

lemma main_xa_exit_4:
  "fst (generate_learning_update_xa w) = Inr (t, l) \<Longrightarrow> t = [] \<Longrightarrow> fst (main_xa w) = Inr 4"
  by (cases "generate_learning_update_xa w") (simp add: main_xa_def)

lemma main_xa_exit_5:
  "fst (generate_learning_update_xa w) = Inr (t, l) \<Longrightarrow> t \<noteq> [] \<Longrightarrow> l = []
   \<Longrightarrow> fst (main_xa w) = Inr 5"
  by (cases "generate_learning_update_xa w") (simp add: main_xa_def)

lemma empty_file_xa:
  "read_file w ''input.txt'' = FileContents s \<Longrightarrow> str_strip s = []
   \<Longrightarrow> generate_learning_update_xa w = (Inr ([], []), [])"
  by (simp add: generate_learning_update_xa_def read_text_from_file_def)

lemma empty_file:
  "read_file w ''text.txt'' = FileContents s \<Longrightarrow> str_strip s = []
   \<Longrightarrow> generate_learning_update w = (Inr [], [])"
  by (simp add: generate_learning_update_def read_text_from_file_def)

lemma post_tweet_xa_posting:
  "posting_calls (snd (post_tweet_xa w t l)) = [t]
   \<and> (fst (post_tweet_xa w t l) = Inr 6 \<longleftrightarrow> create_tweet w t = PostApiError)
   \<and> (fst (post_tweet_xa w t l) = Inr 7 \<longleftrightarrow> create_tweet w t = PostUnexpectedError)"
  by (cases "create_tweet w t") (simp_all add: post_tweet_xa_def)

lemma main_xa_posting:
  "posting_calls (snd (main_xa w)) = [] \<and> fst (main_xa w) \<noteq> Inr 6 \<and> fst (main_xa w) \<noteq> Inr 7
   \<or> (\<exists>t l. fst (generate_learning_update_xa w) = Inr (t, l)
         \<and> posting_calls (snd (main_xa w)) = [truncate_tweet t]
         \<and> (fst (main_xa w) = Inr 6 \<longleftrightarrow> create_tweet w (truncate_tweet t) = PostApiError)
         \<and> (fst (main_xa w) = Inr 7
              \<longleftrightarrow> create_tweet w (truncate_tweet t) = PostUnexpectedError))"
proof (cases w rule: glu_xa_cases)
  case (1 e tr)
  then show ?thesis by (simp add: main_xa_def)
next
  case (2 t l tr)
  obtain c tr2 where c: "confirm w = (c, tr2)" by (cases "confirm w")
  then have tr2: "posting_calls tr2 = []" using confirm_posting [of w] by simp
  obtain r tr3 where p: "post_tweet_xa w (truncate_tweet t) l = (r, tr3)"
    by (cases "post_tweet_xa w (truncate_tweet t) l")
  have p3: "posting_calls tr3 = [truncate_tweet t]"
    "r = Inr 6 \<longleftrightarrow> create_tweet w (truncate_tweet t) = PostApiError"
    "r = Inr 7 \<longleftrightarrow> create_tweet w (truncate_tweet t) = PostUnexpectedError"
    using post_tweet_xa_posting [of w "truncate_tweet t" l] p by simp_all
  show ?thesis
  proof (cases "init_client w")
    case (Inl e)
    with 2 show ?thesis by (cases e) (simp_all add: main_xa_def Let_def)
  next
    case (Inr u)
    with 2 c tr2 p p3 show ?thesis
      by (cases c) (simp_all add: main_xa_def Let_def)
  qed
qed

lemma main_xa_dry_run:
  assumes "dry_run w" "fst (generate_learning_update_xa w) = Inr (t, l)" "t \<noteq> []" "l \<noteq> []"
  shows "fst (main_xa w) = Inr 0 \<and> posting_calls (snd (main_xa w)) = []
         \<and> appended (snd (main_xa w))
             = (if can_append w (arg_output w)
                then [(arg_output w,
                       output_record w (truncate_tweet t) l (Some (str_of ''DRY RUN'')))]
                else [])"
  using assms
  by (cases w rule: glu_xa_cases) (auto simp: main_xa_def Let_def save_output_def)

lemma dry_run_note:
  "str_of ''NOTE: DRY RUN'' @ [NL] \<in> set (output_record w t l (Some (str_of ''DRY RUN'')))"
  by (simp add: output_record_def str_of_def)

lemma dry_run_true: "getenv w ''DRY_RUN'' = Some (str_of ''true'') \<Longrightarrow> dry_run w"
  by (simp add: dry_run_def str_of_def str_lower_def chr_lower_def)

lemma linkedin_recorded: "str_rstrip l @ [NL] \<in> set (output_record w t l n)"
  by (simp add: output_record_def)

lemma main_xa_preview:
  assumes "fst (generate_learning_update_xa w) = Inr (t, l)" "t \<noteq> []" "l \<noteq> []"
  shows "Print l \<in> set (snd (main_xa w))
         \<and> (can_append w (arg_output w) \<longrightarrow>
              (arg_output w,
               output_record w (truncate_tweet t) l
                 (if dry_run w then Some (str_of ''DRY RUN'') else None))
              \<in> set (appended (snd (main_xa w))))"
proof (cases w rule: glu_xa_cases)
  case (1 e tr)
  with assms show ?thesis by simp
next
  case (2 t' l' tr)
  with assms have eq: "t' = t" "l' = l" by simp_all
  obtain c tr2 where c: "confirm w = (c, tr2)" by (cases "confirm w")
  obtain r tr3 where p: "post_tweet_xa w (truncate_tweet t) l = (r, tr3)"
    by (cases "post_tweet_xa w (truncate_tweet t) l")
  show ?thesis
  proof (cases "init_client w")
    case (Inl e)
    with 2 eq assms show ?thesis
      by (cases e) (simp_all add: main_xa_def Let_def save_output_def)
  next
    case (Inr u)
    with 2 eq assms c p show ?thesis
      by (cases c) (simp_all add: main_xa_def Let_def save_output_def)
  qed
qed

lemma main_exit_5_iff:
  "fst (main w) = Inr 5
     \<longleftrightarrow> (\<exists>p. posting_calls (snd (main w)) = [p] \<and> create_tweet w p = PostApiError)"
proof -
  from main_posting [of w] consider
      "posting_calls (snd (main w)) = []" "fst (main w) \<noteq> Inr 5"
    | t where "posting_calls (snd (main w)) = [t]"
        "fst (main w) = Inr 5 \<longleftrightarrow> create_tweet w t = PostApiError"
    by blast
  then show ?thesis by cases simp_all
qed

lemma main_exit_6_iff:
  "fst (main w) = Inr 6
     \<longleftrightarrow> (\<exists>p. posting_calls (snd (main w)) = [p] \<and> create_tweet w p = PostUnexpectedError)"
proof -
  from main_posting [of w] consider
      "posting_calls (snd (main w)) = []" "fst (main w) \<noteq> Inr 6"
    | t where "posting_calls (snd (main w)) = [t]"
        "fst (main w) = Inr 6 \<longleftrightarrow> create_tweet w t = PostUnexpectedError"
    by blast
  then show ?thesis by cases simp_all
qed

lemma main_xa_exit_6_iff:
  "fst (main_xa w) = Inr 6
     \<longleftrightarrow> (\<exists>p. posting_calls (snd (main_xa w)) = [p] \<and> create_tweet w p = PostApiError)"
proof -
  from main_xa_posting [of w] consider
      "posting_calls (snd (main_xa w)) = []" "fst (main_xa w) \<noteq> Inr 6"
    | t where "posting_calls (snd (main_xa w)) = [t]"
        "fst (main_xa w) = Inr 6 \<longleftrightarrow> create_tweet w t = PostApiError"
    by blast
  then show ?thesis by cases simp_all
qed

lemma main_xa_exit_7_iff:
  "fst (main_xa w) = Inr 7
     \<longleftrightarrow> (\<exists>p. posting_calls (snd (main_xa w)) = [p]
               \<and> create_tweet w p = PostUnexpectedError)"
proof -
  from main_xa_posting [of w] consider
      "posting_calls (snd (main_xa w)) = []" "fst (main_xa w) \<noteq> Inr 7"
    | t where "posting_calls (snd (main_xa w)) = [t]"
        "fst (main_xa w) = Inr 7 \<longleftrightarrow> create_tweet w t = PostUnexpectedError"
    by blast
  then show ?thesis by cases simp_all
qed

section \<open>The sample environments evaluated\<close>

lemmas world_defs = sample_world_def no_key_world_def api_error_world_def
  unexpected_error_world_def empty_file_world_def empty_file_no_creds_world_def
  no_linkedin_world_def dry_world_def env_of_def

lemmas run_defs = generate_learning_update_def generate_learning_update_xa_def
  read_text_from_file_def paraphrase_for_tweet_def paraphrase_for_linkedin_def
  get_env_var_def init_client_def dry_run_def str_lower_def chr_lower_def

lemmas sample_facts = sample_raw_facts sample_tweet_facts sample_post_facts

lemma strip_blank: "str_strip [SPACE, NL] = []"
  by (simp add: str_strip_def str_rstrip_def is_space_def SPACE_def NL_def)

lemma sample_world_gen:
  "generate_learning_update sample_world
     = (Inr sample_tweet, [GenerateContent (str_of ''g'') (TweetPrompt sample_raw)])"
  "generate_learning_update_xa sample_world
     = (Inr (sample_tweet, sample_post),
        [GenerateContent (str_of ''g'') (TweetPrompt sample_raw),
         GenerateContent (str_of ''g'') (LinkedInPrompt sample_raw)])"
  "init_client sample_world = Inr ()" "\<not> dry_run sample_world"
  by (simp_all add: run_defs world_defs sample_facts str_of_def)

lemma api_error_world_gen:
  "generate_learning_update api_error_world
     = (Inr sample_tweet, [GenerateContent (str_of ''g'') (TweetPrompt sample_raw)])"
  "generate_learning_update_xa api_error_world
     = (Inr (sample_tweet, sample_post),
        [GenerateContent (str_of ''g'') (TweetPrompt sample_raw),
         GenerateContent (str_of ''g'') (LinkedInPrompt sample_raw)])"
  "init_client api_error_world = Inr ()" "\<not> dry_run api_error_world"
  by (simp_all add: run_defs world_defs sample_facts str_of_def)

lemma unexpected_error_world_gen:
  "generate_learning_update unexpected_error_world
     = (Inr sample_tweet, [GenerateContent (str_of ''g'') (TweetPrompt sample_raw)])"
  "generate_learning_update_xa unexpected_error_world
     = (Inr (sample_tweet, sample_post),
        [GenerateContent (str_of ''g'') (TweetPrompt sample_raw),
         GenerateContent (str_of ''g'') (LinkedInPrompt sample_raw)])"
  "init_client unexpected_error_world = Inr ()" "\<not> dry_run unexpected_error_world"
  by (simp_all add: run_defs world_defs sample_facts str_of_def)

lemma dry_world_gen:
  "generate_learning_update dry_world
     = (Inr sample_tweet, [GenerateContent (str_of ''g'') (TweetPrompt sample_raw)])"
  "generate_learning_update_xa dry_world
     = (Inr (sample_tweet, sample_post),
        [GenerateContent (str_of ''g'') (TweetPrompt sample_raw),
         GenerateContent (str_of ''g'') (LinkedInPrompt sample_raw)])"
  "init_client dry_world = Inr ()" "dry_run dry_world"
  "getenv dry_world ''DRY_RUN'' = Some (str_of ''true'')"
  by (simp_all add: run_defs world_defs sample_facts str_of_def)

lemma empty_file_world_gen:
  "read_file empty_file_world ''input.txt'' = FileContents [SPACE, NL]"
  "read_file empty_file_world ''text.txt'' = FileContents [SPACE, NL]"
  "generate_learning_update empty_file_world = (Inr [], [])"
  "generate_learning_update_xa empty_file_world = (Inr ([], []), [])"
  "init_client empty_file_world = Inr ()"
  by (simp_all add: run_defs world_defs strip_blank str_of_def)

lemma empty_file_no_creds_world_gen:
  "read_file empty_file_no_creds_world ''text.txt'' = FileContents [SPACE, NL]"
  "init_client empty_file_no_creds_world = Inl (EnvironmentError ''X_API_KEY'')"
  by (simp_all add: run_defs world_defs strip_blank str_of_def)

lemma no_linkedin_world_gen:
  "generate_learning_update_xa no_linkedin_world
     = (Inr (sample_tweet, []),
        [GenerateContent (str_of ''g'') (TweetPrompt sample_raw),
         GenerateContent (str_of ''g'') (LinkedInPrompt sample_raw)])"
  by (simp_all add: run_defs world_defs sample_facts str_of_def)

lemma no_key_world_gen:
  "generate_learning_update no_key_world = (Inl (EnvironmentError ''GEMINI_API_KEY''), [])"
  "generate_learning_update_xa no_key_world = (Inl (EnvironmentError ''GEMINI_API_KEY''), [])"
  "init_client no_key_world = Inr ()"
  "read_file no_key_world ''text.txt'' = FileContents sample_raw"
  "getenv no_key_world ''GEMINI_API_KEY'' = None"
  by (simp_all add: run_defs world_defs sample_facts str_of_def)

lemma world_fields:
  "create_tweet api_error_world t = PostApiError"
  "create_tweet unexpected_error_world t = PostUnexpectedError"
  "create_tweet sample_world t = PostOk (Some (str_of ''42''))"
  "arg_yes api_error_world" "arg_yes unexpected_error_world" "arg_yes sample_world"
  "can_append sample_world p" "can_append dry_world p"
  "arg_output sample_world = str_of ''output.txt''"
  "arg_output dry_world = str_of ''output.txt''"
  by (simp_all add: world_defs)

lemma api_error_runs:
  "fst (main api_error_world) = Inr 5"
  "posting_calls (snd (main api_error_world)) = [sample_tweet]"
  "fst (main_xa api_error_world) = Inr 6"
  "posting_calls (snd (main_xa api_error_world)) = [sample_tweet]"
  by (simp_all add: main_def main_xa_def api_error_world_gen sample_facts world_fields
      confirm_def post_tweet_xa_def Let_def)

lemma unexpected_error_runs:
  "fst (main unexpected_error_world) = Inr 6"
  "posting_calls (snd (main unexpected_error_world)) = [sample_tweet]"
  "fst (main_xa unexpected_error_world) = Inr 7"
  "posting_calls (snd (main_xa unexpected_error_world)) = [sample_tweet]"
  by (simp_all add: main_def main_xa_def unexpected_error_world_gen sample_facts world_fields
      confirm_def post_tweet_xa_def Let_def)

lemma sample_runs:
  "fst (main_xa sample_world) = Inr 0"
  "posting_calls (snd (main_xa sample_world)) = [sample_tweet]"
  by (simp_all add: main_def main_xa_def sample_world_gen sample_facts world_fields
      confirm_def post_tweet_xa_def Let_def)

lemma dry_runs:
  "main dry_world
     = (Inr 0, [GenerateContent (str_of ''g'') (TweetPrompt sample_raw),
                Print (NL # str_of ''--- TWEET PREVIEW ---'' @ [NL]),
                Print sample_tweet,
                Print (NL # str_of ''--------------------'' @ [NL])])"
  by (simp add: main_def dry_world_gen sample_facts Let_def)

lemma empty_file_runs:
  "fst (main_xa empty_file_world) = Inr 4" "fst (main empty_file_world) = Inr 4"
  by (simp_all add: main_def main_xa_def empty_file_world_gen)

section \<open>Claims about the scripts\<close>

text \<open>
  C2.  Whatever the input, the shaped text stays within the platform ceiling: at most 280
  characters from \<open>truncate_tweet\<close> and from the shaping in \<open>paraphrase_for_tweet\<close>, at most
  3000 from the shaping in \<open>paraphrase_for_linkedin\<close>; and every value that
  \<open>paraphrase_for_tweet\<close> or \<open>paraphrase_for_linkedin\<close> returns is a string within its
  ceiling.  (Every \<open>return\<close> of these functions gives a string, which is the result type of
  the model; the paths that raise are the subject of C3.)
\<close>

theorem shaped_length_bounded:
  "length (truncate_tweet s) \<le> 280 \<and> length (shape_tweet s) \<le> 280
   \<and> length (shape_linkedin s) \<le> 3000
   \<and> (\<forall>r. fst (paraphrase_for_tweet w text) = Inr r \<longrightarrow> length r \<le> 280)
   \<and> (\<forall>r. fst (paraphrase_for_linkedin w text) = Inr r \<longrightarrow> length r \<le> 3000)"
  using truncate_tweet_length shape_tweet_length shape_linkedin_length
    paraphrase_for_tweet_length paraphrase_for_linkedin_length by blast

theorem shaped_length_bounded_witness:
  "fst (paraphrase_for_tweet sample_world sample_raw) = Inr sample_tweet
   \<and> length sample_tweet \<le> 280
   \<and> fst (paraphrase_for_linkedin sample_world sample_raw) = Inr sample_post
   \<and> length sample_post \<le> 3000"
proof -
  have h1: "fst (paraphrase_for_tweet sample_world sample_raw) = Inr sample_tweet"
    by (simp add: run_defs world_defs sample_facts str_of_def)
  have h2: "fst (paraphrase_for_linkedin sample_world sample_raw) = Inr sample_post"
    by (simp add: run_defs world_defs sample_facts str_of_def)
  show ?thesis
    using shaped_length_bounded [of "[]" sample_world sample_raw] h1 h2 by blast
qed

text \<open>
  C8.  Shaping the empty string gives the empty string, and on empty input
  \<open>paraphrase_for_tweet\<close> returns the empty string with an empty trace: no call of the
  generation service is made, whatever the environment.
\<close>

theorem empty_input:
  "shape_tweet [] = [] \<and> truncate_tweet [] = []
   \<and> paraphrase_for_tweet w [] = (Inr [], [])
   \<and> generation_calls (snd (paraphrase_for_tweet w [])) = []"
  by (simp add: shape_tweet_def normalize_Nil truncate_tweet_def paraphrase_for_tweet_def
      MAX_TWEET_LENGTH_def)

text \<open>
  C3 does not hold of the code.  With the generation key unset and a non-empty text,
  \<open>paraphrase_for_tweet\<close> raises \<open>EnvironmentError\<close> instead of returning the empty string:
  \<open>_get_env_var\<close> is called before the \<open>try\<close>.  Nothing above catches it, so the exception
  leaves \<open>main\<close> in both scripts.  The docstring in \<open>script.py\<close> says "Always returns a
  string (empty string on failure)".
\<close>

theorem missing_key_raises:
  "paraphrase_for_tweet (w\<lparr>getenv := (getenv w)(''GEMINI_API_KEY'' := None)\<rparr>) (c # cs)
     = (Inl (EnvironmentError ''GEMINI_API_KEY''), [])
   \<and> getenv no_key_world ''GEMINI_API_KEY'' = None
   \<and> read_file no_key_world ''text.txt'' = FileContents sample_raw
   \<and> paraphrase_for_tweet no_key_world sample_raw
       = (Inl (EnvironmentError ''GEMINI_API_KEY''), [])
   \<and> main no_key_world = (Inl (EnvironmentError ''GEMINI_API_KEY''), [])
   \<and> main_xa no_key_world = (Inl (EnvironmentError ''GEMINI_API_KEY''), [])"
  by (simp add: paraphrase_for_tweet_def get_env_var_def no_key_world_gen main_def main_xa_def
      sample_facts)

text \<open>
  C4 as stated fails.  In the two-platform script a posting API error
  (\<open>TweepyException\<close>) gives exit code 6, so 6 is not produced only by unexpected posting
  errors.  And in the single-platform script an empty input file with a posting credential
  missing gives exit code 2, not 4, because that script builds the posting client first.
\<close>

theorem exit_codes_counterexample:
  "fst (main_xa api_error_world) = Inr 6
   \<and> posting_calls (snd (main_xa api_error_world)) = [sample_tweet]
   \<and> create_tweet api_error_world sample_tweet = PostApiError
   \<and> read_file empty_file_no_creds_world ''text.txt'' = FileContents [SPACE, NL]
   \<and> str_strip [SPACE, NL] = []
   \<and> main empty_file_no_creds_world = (Inr 2, [])"
  by (simp add: api_error_runs world_fields empty_file_no_creds_world_gen strip_blank main_def)

text \<open>
  C4, amended.  In the two-platform script an empty shaped tweet (an empty input file
  included) gives exit code 4, and a non-empty tweet with an empty long-form post gives 5.
  In the single-platform script an empty shaped tweet (an empty input file included) gives
  4 once the posting client has been built; when building it fails the exit code is 2 or
  3.  In the single-platform script exit code 5 is given exactly when the one posting call
  fails with an API error and 6 exactly when it fails with an unexpected error; 7 is never
  given.  In the two-platform script 6 is given exactly when the one posting call fails
  with an API error and 7 exactly when it fails with an unexpected error.
\<close>

theorem exit_codes:
  "(fst (generate_learning_update_xa w) = Inr (t, l) \<and> truncate_tweet t = []
      \<longrightarrow> fst (main_xa w) = Inr 4)
   \<and> (read_file w ''input.txt'' = FileContents s \<and> str_strip s = []
      \<longrightarrow> fst (main_xa w) = Inr 4)
   \<and> (fst (generate_learning_update_xa w) = Inr (t, l) \<and> truncate_tweet t \<noteq> [] \<and> l = []
      \<longrightarrow> fst (main_xa w) = Inr 5)
   \<and> (init_client w = Inr () \<and> fst (generate_learning_update w) = Inr t' \<and> truncate_tweet t' = []
      \<longrightarrow> fst (main w) = Inr 4)
   \<and> (init_client w = Inr () \<and> read_file w ''text.txt'' = FileContents s' \<and> str_strip s' = []
      \<longrightarrow> fst (main w) = Inr 4)
   \<and> (init_client w = Inl e \<longrightarrow> main w = (Inr 2, []) \<or> main w = (Inr 3, []))
   \<and> (fst (main w) = Inr 5
      \<longleftrightarrow> (\<exists>p. posting_calls (snd (main w)) = [p] \<and> create_tweet w p = PostApiError))
   \<and> (fst (main w) = Inr 6
      \<longleftrightarrow> (\<exists>p. posting_calls (snd (main w)) = [p] \<and> create_tweet w p = PostUnexpectedError))
   \<and> fst (main w) \<noteq> Inr 7
   \<and> (fst (main_xa w) = Inr 6
      \<longleftrightarrow> (\<exists>p. posting_calls (snd (main_xa w)) = [p] \<and> create_tweet w p = PostApiError))
   \<and> (fst (main_xa w) = Inr 7
      \<longleftrightarrow> (\<exists>p. posting_calls (snd (main_xa w)) = [p]
                \<and> create_tweet w p = PostUnexpectedError))"
proof -
  have a: "fst (generate_learning_update_xa w) = Inr (t, l) \<and> truncate_tweet t = []
      \<longrightarrow> fst (main_xa w) = Inr 4"
    using main_xa_exit_4 [of w t l] by simp
  have b: "read_file w ''input.txt'' = FileContents s \<and> str_strip s = []
      \<longrightarrow> fst (main_xa w) = Inr 4"
    using empty_file_xa [of w s] main_xa_exit_4 [of w "[]" "[]"] by simp
  have c: "fst (generate_learning_update_xa w) = Inr (t, l) \<and> truncate_tweet t \<noteq> [] \<and> l = []
      \<longrightarrow> fst (main_xa w) = Inr 5"
    using main_xa_exit_5 [of w t l] by simp
  have d: "init_client w = Inr () \<and> fst (generate_learning_update w) = Inr t'
      \<and> truncate_tweet t' = [] \<longrightarrow> fst (main w) = Inr 4"
    using main_exit_4 [of w t'] by simp
  have e: "init_client w = Inr () \<and> read_file w ''text.txt'' = FileContents s'
      \<and> str_strip s' = [] \<longrightarrow> fst (main w) = Inr 4"
    using empty_file [of w s'] main_exit_4 [of w "[]"] by simp
  have f: "init_client w = Inl e \<longrightarrow> main w = (Inr 2, []) \<or> main w = (Inr 3, [])"
    using main_init_fails [of w e] by simp
  show ?thesis
    by (intro conjI a b c d e f main_exit_5_iff main_exit_6_iff main_not_7
        main_xa_exit_6_iff main_xa_exit_7_iff)
qed

theorem exit_codes_witness:
  "(read_file empty_file_world ''input.txt'' = FileContents [SPACE, NL]
      \<and> str_strip [SPACE, NL] = [] \<and> fst (main_xa empty_file_world) = Inr 4)
   \<and> (init_client empty_file_world = Inr ()
      \<and> read_file empty_file_world ''text.txt'' = FileContents [SPACE, NL]
      \<and> fst (main empty_file_world) = Inr 4)
   \<and> (fst (generate_learning_update_xa no_linkedin_world) = Inr (sample_tweet, [])
      \<and> truncate_tweet sample_tweet \<noteq> [] \<and> fst (main_xa no_linkedin_world) = Inr 5)
   \<and> (fst (main api_error_world) = Inr 5
      \<and> (\<exists>p. posting_calls (snd (main api_error_world)) = [p]
               \<and> create_tweet api_error_world p = PostApiError))
   \<and> (fst (main unexpected_error_world) = Inr 6
      \<and> (\<exists>p. posting_calls (snd (main unexpected_error_world)) = [p]
               \<and> create_tweet unexpected_error_world p = PostUnexpectedError))
   \<and> (fst (main_xa api_error_world) = Inr 6
      \<and> (\<exists>p. posting_calls (snd (main_xa api_error_world)) = [p]
               \<and> create_tweet api_error_world p = PostApiError))
   \<and> (fst (main_xa unexpected_error_world) = Inr 7
      \<and> (\<exists>p. posting_calls (snd (main_xa unexpected_error_world)) = [p]
               \<and> create_tweet unexpected_error_world p = PostUnexpectedError))
   \<and> (init_client empty_file_no_creds_world = Inl (EnvironmentError ''X_API_KEY'')
      \<and> (main empty_file_no_creds_world = (Inr 2, [])
           \<or> main empty_file_no_creds_world = (Inr 3, [])))"
proof -
  have h1: "read_file empty_file_world ''input.txt'' = FileContents [SPACE, NL]
      \<and> str_strip [SPACE, NL] = []"
    by (simp add: empty_file_world_gen strip_blank)
  have c1: "fst (main_xa empty_file_world) = Inr 4"
    using exit_codes [where w = empty_file_world and s = "[SPACE, NL]"] h1 by blast
  have h2: "init_client empty_file_world = Inr ()
      \<and> read_file empty_file_world ''text.txt'' = FileContents [SPACE, NL]
      \<and> str_strip [SPACE, NL] = []"
    by (simp add: empty_file_world_gen strip_blank)
  have c2: "fst (main empty_file_world) = Inr 4"
    using exit_codes [where w = empty_file_world and s' = "[SPACE, NL]"] h2 by blast
  have h3: "fst (generate_learning_update_xa no_linkedin_world) = Inr (sample_tweet, [])
      \<and> truncate_tweet sample_tweet \<noteq> []"
    by (simp add: no_linkedin_world_gen sample_facts)
  have c3: "fst (main_xa no_linkedin_world) = Inr 5"
    using exit_codes [where w = no_linkedin_world and t = sample_tweet and l = "[]"] h3
    by blast
  have c4: "\<exists>p. posting_calls (snd (main api_error_world)) = [p]
               \<and> create_tweet api_error_world p = PostApiError"
    using exit_codes [where w = api_error_world] api_error_runs(1) by blast
  have c5: "\<exists>p. posting_calls (snd (main unexpected_error_world)) = [p]
               \<and> create_tweet unexpected_error_world p = PostUnexpectedError"
    using exit_codes [where w = unexpected_error_world] unexpected_error_runs(1) by blast
  have c6: "\<exists>p. posting_calls (snd (main_xa api_error_world)) = [p]
               \<and> create_tweet api_error_world p = PostApiError"
    using exit_codes [where w = api_error_world] api_error_runs(3) by blast
  have c7: "\<exists>p. posting_calls (snd (main_xa unexpected_error_world)) = [p]
               \<and> create_tweet unexpected_error_world p = PostUnexpectedError"
    using exit_codes [where w = unexpected_error_world] unexpected_error_runs(3) by blast
  have h8: "init_client empty_file_no_creds_world = Inl (EnvironmentError ''X_API_KEY'')"
    by (simp add: empty_file_no_creds_world_gen)
  have c8: "main empty_file_no_creds_world = (Inr 2, [])
           \<or> main empty_file_no_creds_world = (Inr 3, [])"
    using exit_codes [where w = empty_file_no_creds_world
        and e = "EnvironmentError ''X_API_KEY''"] h8 by blast
  show ?thesis
    using h1 c1 h2 c2 h3 c3 c4 c5 c6 c7 h8 c8 api_error_runs(1,3) unexpected_error_runs(1,3)
    by simp
qed

text \<open>
  C5 as stated fails.  The single-platform script under \<open>DRY_RUN=true\<close>, with non-empty
  generation output, exits with code 0 without a posting call, but it appends nothing to
  any file: its whole trace is the generation call and three prints.
\<close>

theorem dry_run_counterexample:
  "getenv dry_world ''DRY_RUN'' = Some (str_of ''true'')
   \<and> init_client dry_world = Inr ()
   \<and> fst (generate_learning_update dry_world) = Inr sample_tweet
   \<and> sample_tweet \<noteq> []
   \<and> main dry_world
       = (Inr 0, [GenerateContent (str_of ''g'') (TweetPrompt sample_raw),
                  Print (NL # str_of ''--- TWEET PREVIEW ---'' @ [NL]),
                  Print sample_tweet,
                  Print (NL # str_of ''--------------------'' @ [NL])])
   \<and> appended (snd (main dry_world)) = []"
  by (simp add: dry_world_gen sample_facts dry_runs)

text \<open>
  C5, amended.  In the two-platform script, whenever \<open>DRY_RUN\<close> reads \<open>true\<close> in lower
  case and generation gives a non-empty tweet and a non-empty long-form post, \<open>main\<close> exits
  with code 0 without a posting call, and the one append it makes (none if the file cannot
  be written) is to the output path, of a record that contains the line
  \<open>NOTE: DRY RUN\<close>.  In the single-platform script, under the same flag, with the posting
  client built and a non-empty tweet, \<open>main\<close> exits with code 0 without a posting call;
  that script never appends to a file.
\<close>

theorem dry_run_exit:
  "(dry_run w \<and> fst (generate_learning_update_xa w) = Inr (t, l) \<and> t \<noteq> [] \<and> l \<noteq> []
      \<longrightarrow> fst (main_xa w) = Inr 0
          \<and> posting_calls (snd (main_xa w)) = []
          \<and> appended (snd (main_xa w))
              = (if can_append w (arg_output w)
                 then [(arg_output w,
                        output_record w (truncate_tweet t) l (Some (str_of ''DRY RUN'')))]
                 else [])
          \<and> str_of ''NOTE: DRY RUN'' @ [NL]
              \<in> set (output_record w (truncate_tweet t) l (Some (str_of ''DRY RUN''))))
   \<and> (dry_run w \<and> init_client w = Inr () \<and> fst (generate_learning_update w) = Inr t'
        \<and> t' \<noteq> []
      \<longrightarrow> fst (main w) = Inr 0 \<and> posting_calls (snd (main w)) = [])
   \<and> appended (snd (main w)) = []
   \<and> (getenv w ''DRY_RUN'' = Some (str_of ''true'') \<longrightarrow> dry_run w)"
proof -
  have a: "dry_run w \<and> fst (generate_learning_update_xa w) = Inr (t, l) \<and> t \<noteq> [] \<and> l \<noteq> []
      \<longrightarrow> fst (main_xa w) = Inr 0
          \<and> posting_calls (snd (main_xa w)) = []
          \<and> appended (snd (main_xa w))
              = (if can_append w (arg_output w)
                 then [(arg_output w,
                        output_record w (truncate_tweet t) l (Some (str_of ''DRY RUN'')))]
                 else [])
          \<and> str_of ''NOTE: DRY RUN'' @ [NL]
              \<in> set (output_record w (truncate_tweet t) l (Some (str_of ''DRY RUN'')))"
    using main_xa_dry_run [of w t l] dry_run_note [of w "truncate_tweet t" l] by blast
  have b: "dry_run w \<and> init_client w = Inr () \<and> fst (generate_learning_update w) = Inr t'
        \<and> t' \<noteq> []
      \<longrightarrow> fst (main w) = Inr 0 \<and> posting_calls (snd (main w)) = []"
    using main_dry_run [of w t'] by blast
  have c: "getenv w ''DRY_RUN'' = Some (str_of ''true'') \<longrightarrow> dry_run w"
    using dry_run_true [of w] by blast
  show ?thesis by (intro conjI a b c main_appended)
qed

theorem dry_run_exit_witness:
  "getenv dry_world ''DRY_RUN'' = Some (str_of ''true'')
   \<and> fst (generate_learning_update_xa dry_world) = Inr (sample_tweet, sample_post)
   \<and> sample_tweet \<noteq> [] \<and> sample_post \<noteq> []
   \<and> fst (main_xa dry_world) = Inr 0
   \<and> posting_calls (snd (main_xa dry_world)) = []
   \<and> appended (snd (main_xa dry_world))
       = [(str_of ''output.txt'',
           output_record dry_world sample_tweet sample_post (Some (str_of ''DRY RUN'')))]
   \<and> str_of ''NOTE: DRY RUN'' @ [NL]
       \<in> set (output_record dry_world sample_tweet sample_post (Some (str_of ''DRY RUN'')))
   \<and> fst (main dry_world) = Inr 0 \<and> posting_calls (snd (main dry_world)) = []"
proof -
  have h: "dry_run dry_world
      \<and> fst (generate_learning_update_xa dry_world) = Inr (sample_tweet, sample_post)
      \<and> sample_tweet \<noteq> [] \<and> sample_post \<noteq> []"
    by (simp add: dry_world_gen sample_facts)
  have h': "dry_run dry_world \<and> init_client dry_world = Inr ()
      \<and> fst (generate_learning_update dry_world) = Inr sample_tweet \<and> sample_tweet \<noteq> []"
    by (simp add: dry_world_gen sample_facts)
  have g: "getenv dry_world ''DRY_RUN'' = Some (str_of ''true'')"
    by (simp add: dry_world_gen)
  have f: "can_append dry_world (arg_output dry_world)"
    "arg_output dry_world = str_of ''output.txt''"
    "truncate_tweet sample_tweet = sample_tweet"
    by (simp_all add: world_fields sample_facts)
  from dry_run_exit [where w = dry_world and t = sample_tweet and l = sample_post
      and t' = sample_tweet] h h'
  have "fst (main_xa dry_world) = Inr 0
      \<and> posting_calls (snd (main_xa dry_world)) = []
      \<and> appended (snd (main_xa dry_world))
          = (if can_append dry_world (arg_output dry_world)
             then [(arg_output dry_world,
                    output_record dry_world (truncate_tweet sample_tweet) sample_post
                      (Some (str_of ''DRY RUN'')))]
             else [])
      \<and> str_of ''NOTE: DRY RUN'' @ [NL]
          \<in> set (output_record dry_world (truncate_tweet sample_tweet) sample_post
                   (Some (str_of ''DRY RUN'')))
      \<and> fst (main dry_world) = Inr 0 \<and> posting_calls (snd (main dry_world)) = []"
    by blast
  with h g f show ?thesis by simp
qed

text \<open>
  C9.  In every run of the two-platform script there is at most one posting call, and its
  argument is the truncated tweet that generation returned: the long-form text is never
  handed to the posting service.  When both texts are non-empty the long-form text is
  printed as a preview and is part of the record appended to the output file (when the
  file can be written).
\<close>

theorem linkedin_never_posted:
  "(posting_calls (snd (main_xa w)) = []
     \<or> (\<exists>t l. fst (generate_learning_update_xa w) = Inr (t, l)
             \<and> posting_calls (snd (main_xa w)) = [truncate_tweet t]))
   \<and> (fst (generate_learning_update_xa w) = Inr (t', l') \<and> t' \<noteq> [] \<and> l' \<noteq> []
      \<longrightarrow> Print l' \<in> set (snd (main_xa w))
          \<and> (can_append w (arg_output w)
              \<longrightarrow> (arg_output w,
                   output_record w (truncate_tweet t') l'
                     (if dry_run w then Some (str_of ''DRY RUN'') else None))
                  \<in> set (appended (snd (main_xa w))))
          \<and> str_rstrip l' @ [NL]
              \<in> set (output_record w (truncate_tweet t') l'
                       (if dry_run w then Some (str_of ''DRY RUN'') else None)))"
proof -
  have a: "posting_calls (snd (main_xa w)) = []
     \<or> (\<exists>t l. fst (generate_learning_update_xa w) = Inr (t, l)
             \<and> posting_calls (snd (main_xa w)) = [truncate_tweet t])"
    using main_xa_posting [of w] by blast
  have b: "fst (generate_learning_update_xa w) = Inr (t', l') \<and> t' \<noteq> [] \<and> l' \<noteq> []
      \<longrightarrow> Print l' \<in> set (snd (main_xa w))
          \<and> (can_append w (arg_output w)
              \<longrightarrow> (arg_output w,
                   output_record w (truncate_tweet t') l'
                     (if dry_run w then Some (str_of ''DRY RUN'') else None))
                  \<in> set (appended (snd (main_xa w))))
          \<and> str_rstrip l' @ [NL]
              \<in> set (output_record w (truncate_tweet t') l'
                       (if dry_run w then Some (str_of ''DRY RUN'') else None))"
    using main_xa_preview [of w t' l'] linkedin_recorded by blast
  show ?thesis by (intro conjI a b)
qed

theorem linkedin_never_posted_witness:
  "fst (generate_learning_update_xa sample_world) = Inr (sample_tweet, sample_post)
   \<and> sample_tweet \<noteq> [] \<and> sample_post \<noteq> [] \<and> sample_post \<noteq> sample_tweet
   \<and> posting_calls (snd (main_xa sample_world)) = [sample_tweet]
   \<and> Print sample_post \<in> set (snd (main_xa sample_world))
   \<and> (str_of ''output.txt'', output_record sample_world sample_tweet sample_post None)
       \<in> set (appended (snd (main_xa sample_world)))
   \<and> str_rstrip sample_post @ [NL]
       \<in> set (output_record sample_world sample_tweet sample_post None)"
proof -
  have h: "fst (generate_learning_update_xa sample_world) = Inr (sample_tweet, sample_post)
      \<and> sample_tweet \<noteq> [] \<and> sample_post \<noteq> []"
    by (simp add: sample_world_gen sample_facts)
  have f: "can_append sample_world (arg_output sample_world)"
    "arg_output sample_world = str_of ''output.txt''"
    "truncate_tweet sample_tweet = sample_tweet" "\<not> dry_run sample_world"
    "sample_post \<noteq> sample_tweet"
    by (simp_all add: world_fields sample_facts sample_world_gen)
  from linkedin_never_posted [where w = sample_world and t' = sample_tweet
      and l' = sample_post] h f(1)
  have "Print sample_post \<in> set (snd (main_xa sample_world))
      \<and> (arg_output sample_world,
          output_record sample_world (truncate_tweet sample_tweet) sample_post
            (if dry_run sample_world then Some (str_of ''DRY RUN'') else None))
         \<in> set (appended (snd (main_xa sample_world)))
      \<and> str_rstrip sample_post @ [NL]
          \<in> set (output_record sample_world (truncate_tweet sample_tweet) sample_post
                   (if dry_run sample_world then Some (str_of ''DRY RUN'') else None))"
    by blast
  with h f sample_runs(2) show ?thesis by simp
qed

end
